theory Spec2Isabelle
  imports Main "HOL-Library.Multiset"
begin

section \<open>Data model (types.ts)\<close>

text \<open>
  The interfaces of \<^verbatim>\<open>types.ts\<close> as records. Two fields are renamed because the source's
  names are taken in Isabelle: \<^verbatim>\<open>id\<close> of \<^verbatim>\<open>SummaryProject\<close> is \<open>id_p\<close> (\<open>id\<close> is the
  identity function), and \<^verbatim>\<open>text\<close> is \<open>text_s\<close> in a transcription segment and \<open>text_m\<close> in a
  chat message (\<open>text\<close> is a command of the theory language). JavaScript strings are
  modelled as \<open>string\<close>.
\<close>

record TranscriptionSegment =
  speaker :: string
  text_s :: string

record SummaryProject =
  id_p :: string
  title :: string
  titleEmoji :: string
  summary :: string
  transcription :: "TranscriptionSegment list"
  audioUrl :: string
  audioMimeType :: string
  audioBase64 :: string
  createdAt :: string

datatype role = User | Model

record ChatMessage =
  role :: role
  text_m :: string

section \<open>Dates\<close>

text \<open>
  \<^verbatim>\<open>new Date().toISOString()\<close> formats the clock's time value (milliseconds since the epoch,
  an integer) as \<^verbatim>\<open>YYYY-MM-DDTHH:mm:ss.sssZ\<close> in UTC; years outside 0..9999 are written with
  a sign and six digits. \<open>civil_from_days\<close> is the proleptic Gregorian calendar: the day
  number since 1970-01-01 to (year, month, day).
\<close>

definition civil_from_days :: "int \<Rightarrow> int \<times> int \<times> int" where
  "civil_from_days days =
     (let z = days + 719468;
          era = z div 146097;
          doe = z - era * 146097;
          yoe = (doe - doe div 1460 + doe div 36524 - doe div 146096) div 365;
          doy = doe - (365 * yoe + yoe div 4 - yoe div 100);
          mp = (5 * doy + 2) div 153;
          d = doy - (153 * mp + 2) div 5 + 1;
          m = (if mp < 10 then mp + 3 else mp - 9);
          y = yoe + era * 400
      in (if m \<le> 2 then y + 1 else y, m, d))"

definition days_from_civil :: "int \<Rightarrow> int \<Rightarrow> int \<Rightarrow> int" where
  "days_from_civil y m d =
     (let y' = (if m \<le> 2 then y - 1 else y);
          era = y' div 400;
          yoe = y' - era * 400;
          doy = (153 * (if m > 2 then m - 3 else m + 9) + 2) div 5 + d - 1;
          doe = yoe * 365 + yoe div 4 - yoe div 100 + doy
      in era * 146097 + doe - 719468)"

definition digit_char :: "int \<Rightarrow> char" where
  "digit_char d = ''0123456789'' ! nat (d mod 10)"

fun pad_digits :: "nat \<Rightarrow> int \<Rightarrow> string" where
  "pad_digits 0 n = []"
| "pad_digits (Suc k) n = pad_digits k (n div 10) @ [digit_char n]"

definition toISOString :: "int \<Rightarrow> string" where
  "toISOString t =
     (let days = t div 86400000;
          ms = t mod 86400000;
          (y, m, d) = civil_from_days days;
          year = (if 0 \<le> y \<and> y \<le> 9999 then pad_digits 4 y
                  else (if y < 0 then ''-'' else ''+'') @ pad_digits 6 (abs y))
      in year @ ''-'' @ pad_digits 2 m @ ''-'' @ pad_digits 2 d @ ''T''
           @ pad_digits 2 (ms div 3600000) @ '':''
           @ pad_digits 2 (ms div 60000 mod 60) @ '':''
           @ pad_digits 2 (ms div 1000 mod 60) @ ''.''
           @ pad_digits 3 (ms mod 1000) @ ''Z'')"

text \<open>
  \<^verbatim>\<open>new Date(s).getTime()\<close> is a parameter \<open>gt :: string \<Rightarrow> int\<close> of every operation that
  sorts: the theorems hold for each reading of date strings as time values. A string
  that is no date has the time value NaN, with which the comparator of the sort is not
  consistent and the order of the result is left to the engine; such strings are
  outside the model (\<^verbatim>\<open>processAudio\<close> only ever writes \<^verbatim>\<open>toISOString\<close> stamps).

  \<open>parseISO\<close> is the instance used in the examples: it reads the 24 characters that
  \<open>toISOString\<close> writes for the years 0..9999, and is \<open>None\<close> on every other string.
\<close>

definition digit_val :: "char \<Rightarrow> int option" where
  "digit_val c = (if c \<in> set ''0123456789'' then Some (int (of_char c) - 48) else None)"

fun number_of :: "int \<Rightarrow> string \<Rightarrow> int option" where
  "number_of acc [] = Some acc"
| "number_of acc (c # cs) =
     (case digit_val c of None \<Rightarrow> None | Some d \<Rightarrow> number_of (10 * acc + d) cs)"

definition field :: "nat \<Rightarrow> nat \<Rightarrow> string \<Rightarrow> int option" where
  "field pos len s = number_of 0 (take len (drop pos s))"

definition parseISO :: "string \<Rightarrow> int option" where
  "parseISO s =
     (if length s = 24 \<and> s ! 4 = CHR ''-'' \<and> s ! 7 = CHR ''-'' \<and> s ! 10 = CHR ''T''
         \<and> s ! 13 = CHR '':'' \<and> s ! 16 = CHR '':'' \<and> s ! 19 = CHR ''.'' \<and> s ! 23 = CHR ''Z''
      then (case (field 0 4 s, field 5 2 s, field 8 2 s) of
              (Some y, Some m, Some d) \<Rightarrow>
                (case (field 11 2 s, field 14 2 s, field 17 2 s, field 20 3 s) of
                   (Some hh, Some mi, Some ss, Some ms) \<Rightarrow>
                     (if 1 \<le> m \<and> m \<le> 12 \<and> 1 \<le> d \<and> hh \<le> 23 \<and> mi \<le> 59 \<and> ss \<le> 59
                         \<and> civil_from_days (days_from_civil y m d) = (y, m, d)
                      then Some (days_from_civil y m d * 86400000
                                 + hh * 3600000 + mi * 60000 + ss * 1000 + ms)
                      else None)
                 | _ \<Rightarrow> None)
            | _ \<Rightarrow> None)
      else None)"

definition getTime :: "string \<Rightarrow> int" where
  "getTime s = (case parseISO s of Some t \<Rightarrow> t | None \<Rightarrow> 0)"

section \<open>Array.prototype.sort\<close>

text \<open>
  \<^verbatim>\<open>xs.sort(cmp)\<close> is stable, and with a consistent comparator its result is ordered by
  the comparator; the two together fix the result, which is what the stable insertion
  sort below computes: an element goes in front of the first element it does not
  compare greater than, so elements that compare equal keep the order of the input.
\<close>

fun sort_insert :: "('a \<Rightarrow> 'a \<Rightarrow> int) \<Rightarrow> 'a \<Rightarrow> 'a list \<Rightarrow> 'a list" where
  "sort_insert cmp x [] = [x]"
| "sort_insert cmp x (y # ys) =
     (if cmp x y \<le> 0 then x # y # ys else y # sort_insert cmp x ys)"

definition array_sort :: "('a \<Rightarrow> 'a \<Rightarrow> int) \<Rightarrow> 'a list \<Rightarrow> 'a list" where
  "array_sort cmp xs = foldr (sort_insert cmp) xs []"

text \<open>The comparator of both sorts in \<^verbatim>\<open>App\<close>: newest first.\<close>

definition byCreatedAtDesc :: "(string \<Rightarrow> int) \<Rightarrow> SummaryProject \<Rightarrow> SummaryProject \<Rightarrow> int" where
  "byCreatedAtDesc gt a b = gt (createdAt b) - gt (createdAt a)"

definition newest_first :: "(string \<Rightarrow> int) \<Rightarrow> SummaryProject list \<Rightarrow> bool" where
  "newest_first gt ps = sorted_wrt (\<lambda>a b. gt (createdAt b) \<le> gt (createdAt a)) ps"

section \<open>The note collections of App\<close>

text \<open>
  The state of \<^verbatim>\<open>App\<close> that the handlers below read and write. \<open>alerts\<close> and \<open>console\<close>
  record the calls of \<^verbatim>\<open>alert\<close> and \<^verbatim>\<open>console.error\<close>, the only channels through which a
  handler (all return \<^verbatim>\<open>void\<close>) tells anything to the user or the caller. Every handler
  is modelled as running against the committed state, the one its closure was rendered
  from.
\<close>

record app_state =
  projects :: "SummaryProject list"
  deletedProjects :: "SummaryProject list"
  activeProject :: "SummaryProject option"
  isLoading :: "string option"
  isModalOpen :: bool
  alerts :: "string list"
  console :: "string list"

definition initial_state :: app_state where
  "initial_state = \<lparr>projects = [], deletedProjects = [], activeProject = None,
     isLoading = None, isModalOpen = False, alerts = [], console = []\<rparr>"

text \<open>What \<^verbatim>\<open>generateSummaryFromAudio\<close> resolves to (the remote service is opaque).\<close>

record summary_result =
  res_title :: string
  res_summary :: string
  res_transcription :: "TranscriptionSegment list"
  res_titleEmoji :: string

datatype js_error = SyntaxError | SecurityError | RemoteError

text \<open>
  \<^verbatim>\<open>processAudio\<close>, lines 246-256: the new note. \<open>t_id\<close> and \<open>t_created\<close> are the two
  readings of the clock, \<open>url\<close> is what \<^verbatim>\<open>URL.createObjectURL(blob)\<close> returns.
\<close>

definition newProject ::
  "summary_result \<Rightarrow> string \<Rightarrow> string \<Rightarrow> string \<Rightarrow> int \<Rightarrow> int \<Rightarrow> SummaryProject" where
  "newProject r base64 mimeType url t_id t_created =
     \<lparr>id_p = toISOString t_id,
      title = res_title r,
      titleEmoji = res_titleEmoji r,
      summary = res_summary r,
      transcription = res_transcription r,
      audioUrl = url,
      audioMimeType = mimeType,
      audioBase64 = base64,
      createdAt = toISOString t_created\<rparr>"

text \<open>Lines 258-259: the note goes in front of the active notes, which are sorted again.\<close>

definition addProject :: "(string \<Rightarrow> int) \<Rightarrow> SummaryProject \<Rightarrow> app_state \<Rightarrow> app_state" where
  "addProject gt n s =
     s\<lparr>projects := array_sort (byCreatedAtDesc gt) (n # projects s),
       activeProject := Some n\<rparr>"

text \<open>
  \<^verbatim>\<open>processAudio\<close>: a failure of the summarisation is caught and alerted, and no note is
  made; \<^verbatim>\<open>finally\<close> clears the loader and the modal on both paths.
\<close>

definition processAudio ::
  "(string \<Rightarrow> int) \<Rightarrow> js_error + summary_result \<Rightarrow> string \<Rightarrow> string \<Rightarrow> string \<Rightarrow> int \<Rightarrow> int
     \<Rightarrow> app_state \<Rightarrow> app_state" where
  "processAudio gt res base64 mimeType url t_id t_created s =
     (case res of
        Inl e \<Rightarrow>
          s\<lparr>console := console s @ [''Error processing audio:''],
            alerts := alerts s @ [''Failed to process audio. Please try again.''],
            isLoading := None, isModalOpen := False\<rparr>
      | Inr r \<Rightarrow>
          (addProject gt (newProject r base64 mimeType url t_id t_created) s)
            \<lparr>isLoading := None, isModalOpen := False\<rparr>)"

definition deleteProject :: "string \<Rightarrow> app_state \<Rightarrow> app_state" where
  "deleteProject i s =
     (case find (\<lambda>p. id_p p = i) (projects s) of
        None \<Rightarrow> s
      | Some projectToDelete \<Rightarrow>
          s\<lparr>projects := filter (\<lambda>p. id_p p \<noteq> i) (projects s),
            deletedProjects := projectToDelete # deletedProjects s\<rparr>)"

definition restoreProject :: "(string \<Rightarrow> int) \<Rightarrow> string \<Rightarrow> app_state \<Rightarrow> app_state" where
  "restoreProject gt i s =
     (case find (\<lambda>p. id_p p = i) (deletedProjects s) of
        None \<Rightarrow> s
      | Some projectToRestore \<Rightarrow>
          s\<lparr>deletedProjects := filter (\<lambda>p. id_p p \<noteq> i) (deletedProjects s),
            projects := array_sort (byCreatedAtDesc gt) (projects s @ [projectToRestore])\<rparr>)"

definition permanentlyDeleteProject :: "string \<Rightarrow> app_state \<Rightarrow> app_state" where
  "permanentlyDeleteProject i s =
     s\<lparr>deletedProjects := filter (\<lambda>p. id_p p \<noteq> i) (deletedProjects s)\<rparr>"

text \<open>
  What the handlers look for: the first note with the given id
  (\<^verbatim>\<open>xs.find(p => p.id === id)\<close>).
\<close>

definition found_in :: "string \<Rightarrow> SummaryProject list \<Rightarrow> SummaryProject option" where
  "found_in i ps = find (\<lambda>p. id_p p = i) ps"

text \<open>
  A handler has signalled something when it has alerted or logged: its return value is
  \<^verbatim>\<open>undefined\<close> on every path.
\<close>

definition signalled :: "app_state \<Rightarrow> app_state \<Rightarrow> bool" where
  "signalled s s' = (alerts s' \<noteq> alerts s \<or> console s' \<noteq> console s)"

subsection \<open>Sequences of operations\<close>

datatype repo_op = Create SummaryProject | SoftDelete string | Restore string | Purge string

fun apply_op :: "(string \<Rightarrow> int) \<Rightarrow> repo_op \<Rightarrow> app_state \<Rightarrow> app_state" where
  "apply_op gt (Create n) s = addProject gt n s"
| "apply_op gt (SoftDelete i) s = deleteProject i s"
| "apply_op gt (Restore i) s = restoreProject gt i s"
| "apply_op gt (Purge i) s = permanentlyDeleteProject i s"

fun run_ops :: "(string \<Rightarrow> int) \<Rightarrow> repo_op list \<Rightarrow> app_state \<Rightarrow> app_state" where
  "run_ops gt [] s = s"
| "run_ops gt (op # ops) s = run_ops gt ops (apply_op gt op s)"

definition ids_of :: "app_state \<Rightarrow> string list" where
  "ids_of s = map id_p (projects s) @ map id_p (deletedProjects s)"

text \<open>No id twice in a collection, and no id in both.\<close>

definition ids_unique :: "app_state \<Rightarrow> bool" where
  "ids_unique s = distinct (ids_of s)"

text \<open>Every note that the sequence creates has an id that is in neither collection then.\<close>

fun fresh_creates :: "(string \<Rightarrow> int) \<Rightarrow> app_state \<Rightarrow> repo_op list \<Rightarrow> bool" where
  "fresh_creates gt s [] = True"
| "fresh_creates gt s (Create n # ops) =
     (id_p n \<notin> set (ids_of s) \<and> fresh_creates gt (apply_op gt (Create n) s) ops)"
| "fresh_creates gt s (op # ops) = fresh_creates gt (apply_op gt op s) ops"

section \<open>Loading from local storage\<close>





section \<open>The global assistant's instructions (createGlobalChat)\<close>

text \<open>
  \<^verbatim>\<open>createGlobalChat\<close> of the service module. The object that \<^verbatim>\<open>ai.chats.create\<close> returns is
  a new one at each call; \<open>session\<close> is its identity, given by the caller of the model.
  \<open>join\<close> is \<^verbatim>\<open>Array.prototype.join\<close>. \<open>globalSystemInstruction\<close> is the text of
  \<^verbatim>\<open>systemInstruction\<close>, character for character.
\<close>

record Chat =
  session :: nat
  chat_model :: string
  systemInstruction :: string

fun join :: "string \<Rightarrow> string list \<Rightarrow> string" where
  "join sep [] = []"
| "join sep [x] = x"
| "join sep (x # y # ys) = x @ sep @ join sep (y # ys)"

definition activeProjectsContext :: "SummaryProject list \<Rightarrow> string" where
  \<open>activeProjectsContext ps =
     (if length ps > 0
      then ''Here are the user's current summaries:\<newline>''
           @ join ''\<newline>''
               (map (\<lambda>p. ''- Title: "'' @ title p @ ''" (Summary: '' @ summary p @ '')'') ps)
      else ''The user currently has no active summaries.'')\<close>

definition deletedProjectsContext :: "SummaryProject list \<Rightarrow> string" where
  \<open>deletedProjectsContext ds =
     (if length ds > 0
      then ''Here are the items in the user's recycle bin:\<newline>''
           @ join ''\<newline>'' (map (\<lambda>p. ''- Title: "'' @ title p @ ''"'') ds)
      else ''The user's recycle bin is empty.'')\<close>

definition globalSystemInstruction :: "SummaryProject list \<Rightarrow> SummaryProject list \<Rightarrow> string" where
  \<open>globalSystemInstruction ps ds =
     ''You are the built-in AI assistant for the "EchoNote Summarizer" application.\<newline>''
       @ ''Your ONLY purpose is to help users with their notes and the app's features.\<newline>''
       @ ''You are strictly forbidden from answering any general knowledge questions or engaging ''
       @ ''in conversations unrelated to the user's summaries or the app itself.\<newline>''
       @ ''If the user asks a question outside of your scope (e.g., "What is the capital of ''
       @ ''France?", "Tell me a joke"), you MUST politely decline and remind them of your purpose. ''
       @ ''For example, say: "I can only answer questions about your notes and summaries within ''
       @ ''the EchoNote app. How can I help you with your recordings?"\<newline>''
       @ ''\<newline>''
       @ ''You have access to the following information about the user's data:\<newline>''
       @ ''\<newline>''
       @ ''1.  **Active Summaries**:\<newline>''
       @ activeProjectsContext ps
       @ ''\<newline>''
       @ ''\<newline>''
       @ ''2.  **Recycle Bin**:\<newline>''
       @ deletedProjectsContext ds
       @ ''\<newline>''
       @ ''\<newline>''
       @ ''Use this information to answer questions about their notes. You can count items, search ''
       @ ''for keywords in titles and summaries, and compare notes.''\<close>

definition createGlobalChat :: "nat \<Rightarrow> SummaryProject list \<Rightarrow> SummaryProject list \<Rightarrow> Chat" where
  "createGlobalChat k ps ds =
     \<lparr>session = k, chat_model = ''gemini-2.5-flash'',
      systemInstruction = globalSystemInstruction ps ds\<rparr>"

section \<open>ChatInterface\<close>

text \<open>
  The state of one \<^verbatim>\<open>ChatInterface\<close> and the parts of \<^verbatim>\<open>handleSend\<close>. Characters are read
  as code units below 256, of which \<^verbatim>\<open>trim\<close> strips the seven that are white space or line
  ends. \<open>handleSend_blocked\<close> is the guard of line 488, \<open>handleSend_begin\<close> the updates
  made before the request is awaited (lines 490-496), \<open>append_chunk\<close> and
  \<open>replace_failed\<close> the two updaters of \<^verbatim>\<open>setMessages\<close>, each run once per call. The
  updaters change the last message object in place; only the state they return is
  modelled.

  \<open>sendChatMessageStream\<close> takes the fragments that the remote stream delivers and calls
  \<open>onChunk\<close> on each in turn. \<open>handleSend\<close> is a whole exchange; the stream either
  completes after its fragments or throws after them.
\<close>

record chat_ui =
  messages :: "ChatMessage list"
  input :: string
  isThinking :: bool
  chat_console :: "string list"

definition is_space :: "char \<Rightarrow> bool" where
  "is_space c = (of_char c \<in> {9, 10, 11, 12, 13, 32, 160 :: nat})"

definition trim :: "string \<Rightarrow> string" where
  "trim s = rev (dropWhile is_space (rev (dropWhile is_space s)))"

definition handleSend_blocked :: "Chat option \<Rightarrow> chat_ui \<Rightarrow> bool" where
  "handleSend_blocked chat st = (trim (input st) = [] \<or> chat = None \<or> isThinking st)"

definition handleSend_begin :: "chat_ui \<Rightarrow> chat_ui" where
  "handleSend_begin st =
     st\<lparr>messages := (messages st @ [\<lparr>role = User, text_m = input st\<rparr>])
                       @ [\<lparr>role = Model, text_m = []\<rparr>],
        input := [],
        isThinking := True\<rparr>"

definition append_chunk :: "string \<Rightarrow> ChatMessage list \<Rightarrow> ChatMessage list" where
  "append_chunk chunk prev =
     (if prev \<noteq> [] \<and> role (last prev) = Model
      then butlast prev @ [(last prev)\<lparr>text_m := text_m (last prev) @ chunk\<rparr>]
      else prev)"

definition replace_failed :: "ChatMessage list \<Rightarrow> ChatMessage list" where
  "replace_failed prev =
     (if prev \<noteq> [] \<and> role (last prev) = Model
      then butlast prev @ [(last prev)\<lparr>text_m := ''Sorry, something went wrong.''\<rparr>]
      else prev)"

definition onChunk :: "string \<Rightarrow> chat_ui \<Rightarrow> chat_ui" where
  "onChunk chunk st = st\<lparr>messages := append_chunk chunk (messages st)\<rparr>"

definition onError :: "chat_ui \<Rightarrow> chat_ui" where
  "onError st = st\<lparr>chat_console := chat_console st @ [''Chat error:''],
                    messages := replace_failed (messages st)\<rparr>"

definition onFinally :: "chat_ui \<Rightarrow> chat_ui" where
  "onFinally st = st\<lparr>isThinking := False\<rparr>"

datatype stream_end = Completed | Thrown




section \<open>App and the ChatInterface of the chat view\<close>

text \<open>
  \<^verbatim>\<open>renderMainContent\<close> shows the \<^verbatim>\<open>ChatInterface\<close> over \<^verbatim>\<open>generalChatRef\<close> when no note is
  open and the view is \<^verbatim>\<open>CHAT\<close>, and at no other time. The state of a component lives as
  long as the component is mounted: \<open>chat_instance\<close> is the mounted \<^verbatim>\<open>ChatInterface\<close> of
  the chat view, with the number of the instance, and \<open>render\<close> mounts a new instance
  with a new state, keeps the mounted one, or unmounts it, as \<^verbatim>\<open>renderMainContent\<close>
  decides. \<open>streams\<close> are the calls of \<^verbatim>\<open>sendChatMessageStream\<close> that have not ended: the
  instance whose \<^verbatim>\<open>setMessages\<close> the callback holds, and the chat the message went to. A
  state setter of an instance that is no longer mounted changes nothing
  (\<open>on_instance\<close>). \<open>next_object\<close> numbers the instances and the chat objects.

  \<open>rebuild\<close> is the effect of lines 187-189; it runs after every update that sets a
  new array as \<^verbatim>\<open>projects\<close> or \<^verbatim>\<open>deletedProjects\<close>.

  The events are the handlers that the rendered elements can call, and the
  completions of the asynchronous calls: the view switch of the header (shown while no
  note is open), a card and its delete button (summaries view), the restore and purge
  buttons (recycle bin), the back button of the detail view, the end of
  \<^verbatim>\<open>processAudio\<close>, the input box and the send button of the chat, a fragment of a stream
  and the end of a stream. An event whose element is not rendered changes nothing.
\<close>

datatype MainView = SUMMARIES | CHAT | RECYCLE_BIN

record app_view =
  state :: app_state
  mainView :: MainView
  generalChatRef :: "Chat option"
  chat_instance :: "(nat \<times> chat_ui) option"
  streams :: "(nat \<times> Chat) list"
  next_object :: nat

definition new_chat_ui :: chat_ui where
  "new_chat_ui = \<lparr>messages = [], input = [], isThinking = False, chat_console = []\<rparr>"

definition chat_rendered :: "app_view \<Rightarrow> bool" where
  "chat_rendered v = (activeProject (state v) = None \<and> mainView v = CHAT)"

definition render :: "app_view \<Rightarrow> app_view" where
  "render v =
     (if chat_rendered v
      then (case chat_instance v of
              Some inst \<Rightarrow> v
            | None \<Rightarrow> v\<lparr>chat_instance := Some (next_object v, new_chat_ui),
                         next_object := Suc (next_object v)\<rparr>)
      else v\<lparr>chat_instance := None\<rparr>)"

definition rebuild :: "app_view \<Rightarrow> app_view" where
  "rebuild v =
     v\<lparr>generalChatRef :=
          Some (createGlobalChat (next_object v) (projects (state v)) (deletedProjects (state v))),
       next_object := Suc (next_object v)\<rparr>"

datatype app_event =
    SelectView MainView
  | OpenProject SummaryProject
  | Back
  | ClickDelete string
  | ClickRestore string
  | ClickPurge string
  | AudioProcessed "js_error + summary_result" string string string int int
  | TypeInput string
  | ClickSend
  | ChunkArrives nat Chat string
  | StreamEnds nat Chat stream_end

definition on_instance :: "nat \<Rightarrow> (chat_ui \<Rightarrow> chat_ui) \<Rightarrow> app_view \<Rightarrow> app_view" where
  "on_instance k f v =
     (case chat_instance v of
        None \<Rightarrow> v
      | Some (k', u) \<Rightarrow> (if k' = k then v\<lparr>chat_instance := Some (k, f u)\<rparr> else v))"

fun app_step :: "(string \<Rightarrow> int) \<Rightarrow> app_event \<Rightarrow> app_view \<Rightarrow> app_view" where
  "app_step gt (SelectView m) v =
     (if activeProject (state v) = None then render (v\<lparr>mainView := m\<rparr>) else v)"
| "app_step gt (OpenProject p) v =
     (if activeProject (state v) = None \<and> mainView v = SUMMARIES \<and> p \<in> set (projects (state v))
      then render (v\<lparr>state := (state v)\<lparr>activeProject := Some p\<rparr>\<rparr>) else v)"
| "app_step gt Back v =
     (if activeProject (state v) \<noteq> None
      then render (v\<lparr>state := (state v)\<lparr>activeProject := None\<rparr>\<rparr>) else v)"
| "app_step gt (ClickDelete i) v =
     (if activeProject (state v) = None \<and> mainView v = SUMMARIES
         \<and> i \<in> set (map id_p (projects (state v)))
      then rebuild (render (v\<lparr>state := deleteProject i (state v)\<rparr>)) else v)"
| "app_step gt (ClickRestore i) v =
     (if activeProject (state v) = None \<and> mainView v = RECYCLE_BIN
         \<and> i \<in> set (map id_p (deletedProjects (state v)))
      then rebuild (render (v\<lparr>state := restoreProject gt i (state v)\<rparr>)) else v)"
| "app_step gt (ClickPurge i) v =
     (if activeProject (state v) = None \<and> mainView v = RECYCLE_BIN
         \<and> i \<in> set (map id_p (deletedProjects (state v)))
      then rebuild (render (v\<lparr>state := permanentlyDeleteProject i (state v)\<rparr>)) else v)"
| "app_step gt (AudioProcessed res base64 mimeType url t_id t_created) v =
     (case res of
        Inl e \<Rightarrow> v\<lparr>state := processAudio gt res base64 mimeType url t_id t_created (state v)\<rparr>
      | Inr r \<Rightarrow>
          rebuild (render
            (v\<lparr>state := processAudio gt res base64 mimeType url t_id t_created (state v)\<rparr>)))"
| "app_step gt (TypeInput txt) v =
     (case chat_instance v of
        None \<Rightarrow> v
      | Some (k, u) \<Rightarrow>
          (if isThinking u then v else v\<lparr>chat_instance := Some (k, u\<lparr>input := txt\<rparr>)\<rparr>))"
| "app_step gt ClickSend v =
     (case chat_instance v of
        None \<Rightarrow> v
      | Some (k, u) \<Rightarrow>
          (case generalChatRef v of
             None \<Rightarrow> v
           | Some c \<Rightarrow>
               (if handleSend_blocked (Some c) u then v
                else v\<lparr>chat_instance := Some (k, handleSend_begin u),
                       streams := (k, c) # streams v\<rparr>)))"
| "app_step gt (ChunkArrives k c chunk) v =
     (if (k, c) \<in> set (streams v) then on_instance k (onChunk chunk) v else v)"
| "app_step gt (StreamEnds k c e) v =
     (if (k, c) \<in> set (streams v)
      then on_instance k (case e of Completed \<Rightarrow> onFinally | Thrown \<Rightarrow> onFinally \<circ> onError)
             (v\<lparr>streams := remove1 (k, c) (streams v)\<rparr>)
      else v)"

fun app_run :: "(string \<Rightarrow> int) \<Rightarrow> app_event list \<Rightarrow> app_view \<Rightarrow> app_view" where
  "app_run gt [] v = v"
| "app_run gt (e # es) v = app_run gt es (app_step gt e v)"

text \<open>\<^verbatim>\<open>App\<close> after it has mounted and loaded the two collections.\<close>

definition app_loaded :: "SummaryProject list \<Rightarrow> SummaryProject list \<Rightarrow> app_view" where
  "app_loaded ps ds =
     rebuild \<lparr>state = initial_state\<lparr>projects := ps, deletedProjects := ds\<rparr>,
              mainView = SUMMARIES, generalChatRef = None, chat_instance = None,
              streams = [], next_object = 0\<rparr>"

definition transcript :: "app_view \<Rightarrow> ChatMessage list option" where
  "transcript v = map_option (\<lambda>(k, u). messages u) (chat_instance v)"

text \<open>
  What holds in every state that \<^verbatim>\<open>App\<close> reaches: a stream whose callback belongs to the
  mounted instance was sent on the chat that \<^verbatim>\<open>generalChatRef\<close> holds now.
\<close>

definition mounted_streams_current :: "app_view \<Rightarrow> bool" where
  "mounted_streams_current v =
     ((\<forall>(k, c) \<in> set (streams v).
         k < next_object v \<and> (\<forall>u. chat_instance v = Some (k, u) \<longrightarrow> generalChatRef v = Some c))
      \<and> (\<forall>k u. chat_instance v = Some (k, u) \<longrightarrow> k < next_object v)
      \<and> (chat_instance v \<noteq> None \<longrightarrow> chat_rendered v))"

section \<open>Example data\<close>

text \<open>Notes, states and a storage for the examples that follow the theorems.\<close>

definition example_result :: summary_result where
  "example_result = \<lparr>res_title = ''Standup'', res_summary = ''Daily sync'',
     res_transcription = [\<lparr>speaker = ''Speaker 1'', text_s = ''Hello''\<rparr>],
     res_titleEmoji = '':)''\<rparr>"

definition example_note :: "string \<Rightarrow> string \<Rightarrow> SummaryProject" where
  "example_note i stamp = \<lparr>id_p = i, title = ''Standup'', titleEmoji = '':)'',
     summary = ''Daily sync'',
     transcription = [\<lparr>speaker = ''Speaker 1'', text_s = ''Hello''\<rparr>],
     audioUrl = ''blob:1'', audioMimeType = ''audio/webm'', audioBase64 = ''QUJD'',
     createdAt = stamp\<rparr>"

definition note_A :: SummaryProject where
  "note_A = example_note ''a1'' ''2024-01-01T09:00:00.000Z''"

definition note_B :: SummaryProject where
  "note_B = example_note ''a2'' ''2024-01-02T09:00:00.000Z''"

definition note_C :: SummaryProject where
  "note_C = example_note ''a0'' ''2023-12-31T09:00:00.000Z''"

definition example_state :: "SummaryProject list \<Rightarrow> SummaryProject list \<Rightarrow> app_state" where
  "example_state ps ds = initial_state\<lparr>projects := ps, deletedProjects := ds\<rparr>"

definition example_create :: "int \<Rightarrow> app_state \<Rightarrow> app_state" where
  "example_create t s =
     processAudio getTime (Inr example_result) ''QUJD'' ''audio/webm'' ''blob:1'' t t s"



section \<open>Properties of the sort\<close>

lemma mset_sort_insert: "mset (sort_insert cmp x ys) = add_mset x (mset ys)"
  by (induction ys) auto

lemma mset_array_sort: "mset (array_sort cmp xs) = mset xs"
  unfolding array_sort_def by (induction xs) (auto simp: mset_sort_insert)

lemma set_sort_insert: "set (sort_insert cmp x ys) = insert x (set ys)"
  by (induction ys) auto

lemma set_array_sort: "set (array_sort cmp xs) = set xs"
  unfolding array_sort_def by (induction xs) (auto simp: set_sort_insert)

lemma distinct_map_array_sort:
  "distinct (map f (array_sort cmp xs)) = distinct (map f xs)"
proof -
  have "mset (map f (array_sort cmp xs)) = mset (map f xs)"
    by (simp add: mset_array_sort)
  then show ?thesis by (rule mset_eq_imp_distinct_iff)
qed

lemma newest_first_sort_insert:
  "newest_first gt ys \<Longrightarrow> newest_first gt (sort_insert (byCreatedAtDesc gt) x ys)"
  unfolding newest_first_def
  by (induction ys) (auto simp: byCreatedAtDesc_def set_sort_insert)

lemma newest_first_array_sort: "newest_first gt (array_sort (byCreatedAtDesc gt) xs)"
proof (induction xs)
  case Nil
  show ?case by (simp add: array_sort_def newest_first_def)
next
  case (Cons x xs)
  then show ?case
    using newest_first_sort_insert [of gt "array_sort (byCreatedAtDesc gt) xs" x]
    by (simp add: array_sort_def)
qed

lemma sort_insert_front:
  "\<forall>y \<in> set ys. gt (createdAt y) \<le> gt (createdAt x) \<Longrightarrow>
   sort_insert (byCreatedAtDesc gt) x ys = x # ys"
  by (cases ys) (auto simp: byCreatedAtDesc_def)

lemma array_sort_sorted:
  "newest_first gt xs \<Longrightarrow> array_sort (byCreatedAtDesc gt) xs = xs"
  unfolding newest_first_def array_sort_def
  by (induction xs) (auto simp: sort_insert_front)


text \<open>
  Where the note that \<^verbatim>\<open>processAudio\<close> puts in front goes: before every note that is as
  new or older.
\<close>

lemma sort_cons_first:
  "newest_first gt xs \<Longrightarrow>
   array_sort (byCreatedAtDesc gt) (n # xs) =
     filter (\<lambda>p. gt (createdAt n) < gt (createdAt p)) xs
       @ n # filter (\<lambda>p. gt (createdAt p) \<le> gt (createdAt n)) xs"
proof (induction xs)
  case Nil
  show ?case by (simp add: array_sort_def)
next
  case (Cons x xs)
  from Cons.prems have sx: "newest_first gt xs"
    and le: "\<forall>y \<in> set xs. gt (createdAt y) \<le> gt (createdAt x)"
    by (auto simp: newest_first_def)
  have whole: "array_sort (byCreatedAtDesc gt) (x # xs) = x # xs"
    using Cons.prems by (rule array_sort_sorted)
  have tail: "array_sort (byCreatedAtDesc gt) xs = xs"
    using sx by (rule array_sort_sorted)
  have step: "array_sort (byCreatedAtDesc gt) (n # x # xs) =
      sort_insert (byCreatedAtDesc gt) n (x # xs)"
    using whole by (simp add: array_sort_def)
  have ih: "sort_insert (byCreatedAtDesc gt) n xs =
     filter (\<lambda>p. gt (createdAt n) < gt (createdAt p)) xs
       @ n # filter (\<lambda>p. gt (createdAt p) \<le> gt (createdAt n)) xs"
    using Cons.IH [OF sx] tail by (simp add: array_sort_def)
  show ?case
  proof (cases "gt (createdAt n) < gt (createdAt x)")
    case True
    then have "sort_insert (byCreatedAtDesc gt) n (x # xs)
        = x # sort_insert (byCreatedAtDesc gt) n xs"
      by (simp add: byCreatedAtDesc_def)
    then show ?thesis using True step ih by simp
  next
    case False
    then have ge: "gt (createdAt x) \<le> gt (createdAt n)" by simp
    have none: "filter (\<lambda>p. gt (createdAt n) < gt (createdAt p)) xs = []"
      using le ge by (auto simp: filter_empty_conv)
    have all: "filter (\<lambda>p. gt (createdAt p) \<le> gt (createdAt n)) xs = xs"
      using le ge by (auto simp: filter_id_conv)
    have "sort_insert (byCreatedAtDesc gt) n (x # xs) = n # x # xs"
      using ge by (simp add: byCreatedAtDesc_def)
    then show ?thesis using step ge none all False by simp
  qed
qed

section \<open>The handlers of the collections\<close>

lemma found_in_Some: "found_in i ps = Some n \<Longrightarrow> n \<in> set ps \<and> id_p n = i"
  unfolding found_in_def by (induction ps) (auto split: if_splits)

lemma found_in_None: "found_in i ps = None \<Longrightarrow> filter (\<lambda>p. id_p p \<noteq> i) ps = ps"
  unfolding found_in_def by (induction ps) (auto split: if_splits)

lemma deleteProject_found:
  "found_in i (projects s) = Some n \<Longrightarrow>
   deleteProject i s = s\<lparr>projects := filter (\<lambda>p. id_p p \<noteq> i) (projects s),
                         deletedProjects := n # deletedProjects s\<rparr>"
  by (simp add: deleteProject_def found_in_def)

lemma restoreProject_found:
  "found_in i (deletedProjects s) = Some n \<Longrightarrow>
   restoreProject gt i s =
     s\<lparr>deletedProjects := filter (\<lambda>p. id_p p \<noteq> i) (deletedProjects s),
       projects := array_sort (byCreatedAtDesc gt) (projects s @ [n])\<rparr>"
  by (simp add: restoreProject_def found_in_def)

text \<open>Where no id is twice in a collection, every note of it is found by its id.\<close>

lemma found_in_unique:
  "n \<in> set ps \<Longrightarrow> distinct (map id_p ps) \<Longrightarrow> found_in (id_p n) ps = Some n"
  unfolding found_in_def by (induction ps) (auto simp: image_iff)

subsection \<open>Ids stay unique while every new id is fresh\<close>

lemma ids_unique_addProject:
  "ids_unique s \<Longrightarrow> id_p n \<notin> set (ids_of s) \<Longrightarrow> ids_unique (addProject gt n s)"
  by (auto simp: ids_unique_def ids_of_def addProject_def distinct_map_array_sort set_array_sort)

lemma ids_unique_deleteProject: "ids_unique s \<Longrightarrow> ids_unique (deleteProject i s)"
proof (cases "found_in i (projects s)")
  case None
  then show "ids_unique s \<Longrightarrow> ?thesis" by (simp add: deleteProject_def found_in_def)
next
  case (Some n)
  assume u: "ids_unique s"
  from found_in_Some [OF Some] have n: "n \<in> set (projects s)" "id_p n = i" by auto
  from u n have "i \<notin> id_p ` set (deletedProjects s)"
    by (auto simp: ids_unique_def ids_of_def)
  with u n show ?thesis
    by (auto simp: deleteProject_found [OF Some] ids_unique_def ids_of_def distinct_map_filter)
qed

lemma ids_unique_restoreProject: "ids_unique s \<Longrightarrow> ids_unique (restoreProject gt i s)"
proof (cases "found_in i (deletedProjects s)")
  case None
  then show "ids_unique s \<Longrightarrow> ?thesis" by (simp add: restoreProject_def found_in_def)
next
  case (Some n)
  assume u: "ids_unique s"
  from found_in_Some [OF Some] have n: "n \<in> set (deletedProjects s)" "id_p n = i" by auto
  from u n have "i \<notin> id_p ` set (projects s)"
    by (auto simp: ids_unique_def ids_of_def)
  with u n show ?thesis
    by (auto simp: restoreProject_found [OF Some] ids_unique_def ids_of_def
        distinct_map_filter distinct_map_array_sort set_array_sort)
qed

lemma ids_unique_permanentlyDeleteProject:
  "ids_unique s \<Longrightarrow> ids_unique (permanentlyDeleteProject i s)"
  by (auto simp: permanentlyDeleteProject_def ids_unique_def ids_of_def distinct_map_filter)

lemma ids_unique_run_ops:
  "ids_unique s \<Longrightarrow> fresh_creates gt s ops \<Longrightarrow> ids_unique (run_ops gt ops s)"
proof (induction ops arbitrary: s)
  case Nil
  then show ?case by simp
next
  case (Cons op ops)
  show ?case
  proof (cases op)
    case (Create n)
    with Cons.prems have "ids_unique (addProject gt n s)"
      by (simp add: ids_unique_addProject)
    with Cons Create show ?thesis by simp
  next
    case (SoftDelete i)
    with Cons show ?thesis by (simp add: ids_unique_deleteProject)
  next
    case (Restore i)
    with Cons show ?thesis by (simp add: ids_unique_restoreProject)
  next
    case (Purge i)
    with Cons show ?thesis by (simp add: ids_unique_permanentlyDeleteProject)
  qed
qed

lemma fresh_creates_take: "fresh_creates gt s ops \<Longrightarrow> fresh_creates gt s (take k ops)"
proof (induction ops arbitrary: s k)
  case Nil
  then show ?case by simp
next
  case (Cons op ops)
  show ?case
  proof (cases k)
    case 0
    then show ?thesis by simp
  next
    case (Suc j)
    with Cons show ?thesis by (cases op) auto
  qed
qed

text \<open>
  The scenario of the specification: A, then the newer B, make the active notes B, A;
  the soft delete of A leaves B active and A trashed; the restore of A gives B, A.
\<close>

lemma scenario_create_delete_restore:
  "projects (run_ops getTime [Create note_A, Create note_B] initial_state) = [note_B, note_A]
   \<and> projects (run_ops getTime [Create note_A, Create note_B, SoftDelete ''a1''] initial_state)
       = [note_B]
   \<and> deletedProjects
        (run_ops getTime [Create note_A, Create note_B, SoftDelete ''a1''] initial_state)
       = [note_A]
   \<and> projects
        (run_ops getTime [Create note_A, Create note_B, SoftDelete ''a1'', Restore ''a1'']
           initial_state)
       = [note_B, note_A]"
  by code_simp

text \<open>
  Claim C1, as the code has it. \<^verbatim>\<open>processAudio\<close> does not look whether the id of the new
  note is in use, so the property needs the ids of the created notes to be fresh: from
  empty collections, after every prefix of a sequence of create, soft delete, restore
  and purge in which each created note has an id that is in neither collection when it
  is created, no id is in both collections and none is twice in one.
\<close>

theorem ids_unique_from_empty:
  "projects s = [] \<Longrightarrow> deletedProjects s = [] \<Longrightarrow> fresh_creates gt s ops \<Longrightarrow>
   ids_unique (run_ops gt (take k ops) s)"
proof -
  assume e: "projects s = []" "deletedProjects s = []" and f: "fresh_creates gt s ops"
  from e have "ids_unique s" by (simp add: ids_unique_def ids_of_def)
  then show ?thesis using fresh_creates_take [OF f] by (rule ids_unique_run_ops)
qed

text \<open>The scenario of the specification, with a purge at its end, after four steps.\<close>

theorem ids_unique_from_empty_witness:
  "fresh_creates getTime initial_state
     [Create note_A, Create note_B, SoftDelete ''a1'', Restore ''a1'', SoftDelete ''a2'',
      Purge ''a2'']
   \<and> ids_unique (run_ops getTime
     (take 4 [Create note_A, Create note_B, SoftDelete ''a1'', Restore ''a1'', SoftDelete ''a2'',
        Purge ''a2''])
     initial_state)"
proof -
  have f: "fresh_creates getTime initial_state
     [Create note_A, Create note_B, SoftDelete ''a1'', Restore ''a1'', SoftDelete ''a2'',
      Purge ''a2'']"
    by code_simp
  have e: "projects initial_state = []" "deletedProjects initial_state = []"
    by (simp_all add: initial_state_def)
  from ids_unique_from_empty [OF e f, of 4] f show ?thesis by simp
qed

text \<open>
  Without fresh ids the property fails: a note created twice is twice among the active
  notes, and a note created again after its soft delete is in both collections.
\<close>

theorem ids_unique_counterexample:
  "\<not> ids_unique (run_ops getTime [Create note_A, Create note_A] initial_state)
   \<and> \<not> ids_unique
        (run_ops getTime [Create note_A, SoftDelete ''a1'', Create note_A] initial_state)"
  by code_simp

text \<open>
  Claim C2, as the code has it: \<^verbatim>\<open>processAudio\<close> with a summary puts the new note among
  the active notes, which are then in order of \<^verbatim>\<open>createdAt\<close>, newest first (in a list that
  was in order the note goes before every note that is as new or older); the trashed
  notes stay and nothing is alerted, whatever the id of the note. Only a failed
  summarisation fails: it is alerted, and both collections stay as they are.
\<close>

theorem processAudio_inserts:
  "mset (projects (processAudio gt (Inr r) b m u t1 t2 s))
     = add_mset (newProject r b m u t1 t2) (mset (projects s))
   \<and> newest_first gt (projects (processAudio gt (Inr r) b m u t1 t2 s))
   \<and> (newest_first gt (projects s) \<longrightarrow>
        projects (processAudio gt (Inr r) b m u t1 t2 s) =
          filter (\<lambda>p. gt (toISOString t2) < gt (createdAt p)) (projects s)
            @ newProject r b m u t1 t2
            # filter (\<lambda>p. gt (createdAt p) \<le> gt (toISOString t2)) (projects s))
   \<and> deletedProjects (processAudio gt (Inr r) b m u t1 t2 s) = deletedProjects s
   \<and> alerts (processAudio gt (Inr r) b m u t1 t2 s) = alerts s
   \<and> projects (processAudio gt (Inl e) b m u t1 t2 s) = projects s
   \<and> deletedProjects (processAudio gt (Inl e) b m u t1 t2 s) = deletedProjects s
   \<and> alerts (processAudio gt (Inl e) b m u t1 t2 s)
       = alerts s @ [''Failed to process audio. Please try again.'']"
proof -
  have c: "createdAt (newProject r b m u t1 t2) = toISOString t2"
    by (simp add: newProject_def)
  show ?thesis
    using sort_cons_first [of gt "projects s" "newProject r b m u t1 t2"]
    by (simp add: processAudio_def addProject_def mset_array_sort newest_first_array_sort c)
qed

text \<open>A note made one second after the first goes in front of it.\<close>

theorem processAudio_inserts_witness:
  "newest_first getTime (projects (example_create 1000 initial_state))
   \<and> map createdAt (projects (example_create 2000 (example_create 1000 initial_state)))
       = [''1970-01-01T00:00:02.000Z'', ''1970-01-01T00:00:01.000Z'']"
proof -
  have o: "newest_first getTime (projects (example_create 1000 initial_state))"
    by code_simp
  have r: "map createdAt
     (filter (\<lambda>p. getTime (toISOString 2000) < getTime (createdAt p))
        (projects (example_create 1000 initial_state))
      @ newProject example_result ''QUJD'' ''audio/webm'' ''blob:1'' 2000 2000
      # filter (\<lambda>p. getTime (createdAt p) \<le> getTime (toISOString 2000))
        (projects (example_create 1000 initial_state)))
     = [''1970-01-01T00:00:02.000Z'', ''1970-01-01T00:00:01.000Z'']"
    by code_simp
  from processAudio_inserts [of getTime example_result "''QUJD''" "''audio/webm''" "''blob:1''"
      2000 2000 "example_create 1000 initial_state"] o r
  show ?thesis by (simp add: example_create_def)
qed

text \<open>
  A second note with the id of an active note does not fail: it is put among the active
  notes, and nothing is alerted.
\<close>

theorem create_duplicate_counterexample:
  "id_p (newProject example_result ''QUJD'' ''audio/webm'' ''blob:1'' 1000 1000)
     \<in> set (ids_of (example_create 1000 initial_state))
   \<and> map id_p (projects (example_create 1000 (example_create 1000 initial_state)))
       = [''1970-01-01T00:00:01.000Z'', ''1970-01-01T00:00:01.000Z'']
   \<and> alerts (example_create 1000 (example_create 1000 initial_state)) = []"
  by code_simp



text \<open>
  Claim C8, as the code has it: when the id is not found in the collection that the
  handler reads, \<^verbatim>\<open>deleteProject\<close>, \<^verbatim>\<open>restoreProject\<close> and \<^verbatim>\<open>permanentlyDeleteProject\<close> leave
  the whole state as it is, both collections included. Nothing is alerted or logged:
  the caller is told nothing.
\<close>

theorem not_found_no_op:
  "(found_in i (projects s) = None \<longrightarrow>
      deleteProject i s = s \<and> \<not> signalled s (deleteProject i s))
   \<and> (found_in i (deletedProjects s) = None \<longrightarrow>
      restoreProject gt i s = s \<and> \<not> signalled s (restoreProject gt i s)
      \<and> permanentlyDeleteProject i s = s \<and> \<not> signalled s (permanentlyDeleteProject i s))"
  by (simp add: deleteProject_def restoreProject_def permanentlyDeleteProject_def
      found_in_None signalled_def found_in_def [symmetric])

theorem not_found_no_op_witness:
  "found_in ''zz'' (projects (example_state [note_B] [note_A])) = None
   \<and> found_in ''zz'' (deletedProjects (example_state [note_B] [note_A])) = None
   \<and> deleteProject ''zz'' (example_state [note_B] [note_A]) = example_state [note_B] [note_A]
   \<and> restoreProject getTime ''zz'' (example_state [note_B] [note_A])
       = example_state [note_B] [note_A]
   \<and> permanentlyDeleteProject ''zz'' (example_state [note_B] [note_A])
       = example_state [note_B] [note_A]"
proof -
  have f1: "found_in ''zz'' (projects (example_state [note_B] [note_A])) = None"
    by code_simp
  have f2: "found_in ''zz'' (deletedProjects (example_state [note_B] [note_A])) = None"
    by code_simp
  from not_found_no_op [of "''zz''" "example_state [note_B] [note_A]" getTime] f1 f2
  show ?thesis by simp
qed

text \<open>An id that is in neither collection: none of the three handlers signals it.\<close>

theorem not_found_signal_counterexample:
  "found_in ''zz'' (projects (example_state [note_B] [note_A])) = None
   \<and> found_in ''zz'' (deletedProjects (example_state [note_B] [note_A])) = None
   \<and> \<not> signalled (example_state [note_B] [note_A])
         (deleteProject ''zz'' (example_state [note_B] [note_A]))
   \<and> \<not> signalled (example_state [note_B] [note_A])
         (restoreProject getTime ''zz'' (example_state [note_B] [note_A]))
   \<and> \<not> signalled (example_state [note_B] [note_A])
         (permanentlyDeleteProject ''zz'' (example_state [note_B] [note_A]))"
  by code_simp

text \<open>
  Claim C9: a move takes the note as it is. After \<^verbatim>\<open>deleteProject\<close> the note that was found
  is the first trashed note, the same record with every field as before, and the other
  notes of both collections are as they were; after \<^verbatim>\<open>restoreProject\<close> the note that was
  found is among the active notes, the same record, with the active notes that were
  there.
\<close>

theorem move_keeps_note:
  "(found_in i (projects s) = Some n \<longrightarrow>
      deletedProjects (deleteProject i s) = n # deletedProjects s \<and>
      projects (deleteProject i s) = filter (\<lambda>p. id_p p \<noteq> i) (projects s))
   \<and> (found_in i (deletedProjects s) = Some n \<longrightarrow>
      mset (projects (restoreProject gt i s)) = add_mset n (mset (projects s)) \<and>
      deletedProjects (restoreProject gt i s)
        = filter (\<lambda>p. id_p p \<noteq> i) (deletedProjects s))"
  by (simp add: deleteProject_found restoreProject_found mset_array_sort)

theorem move_keeps_note_witness:
  "found_in ''a1'' (projects (example_state [note_B, note_A] [])) = Some note_A
   \<and> deletedProjects (deleteProject ''a1'' (example_state [note_B, note_A] [])) = [note_A]
   \<and> found_in ''a1'' (deletedProjects (example_state [note_B] [note_A])) = Some note_A
   \<and> mset (projects (restoreProject getTime ''a1'' (example_state [note_B] [note_A])))
       = {#note_A, note_B#}"
proof -
  have f1: "found_in ''a1'' (projects (example_state [note_B, note_A] [])) = Some note_A"
    by code_simp
  have f2: "found_in ''a1'' (deletedProjects (example_state [note_B] [note_A])) = Some note_A"
    by code_simp
  have e1: "deletedProjects (example_state [note_B, note_A] []) = []"
    by (simp add: example_state_def)
  have e2: "projects (example_state [note_B] [note_A]) = [note_B]"
    by (simp add: example_state_def)
  from move_keeps_note [of "''a1''" "example_state [note_B, note_A] []" note_A] f1 e1
  have d: "deletedProjects (deleteProject ''a1'' (example_state [note_B, note_A] []))
      = [note_A]"
    by simp
  from move_keeps_note [of "''a1''" "example_state [note_B] [note_A]" note_A getTime] f2 e2
  have r: "mset (projects (restoreProject getTime ''a1'' (example_state [note_B] [note_A])))
       = {#note_A, note_B#}"
    by simp
  from f1 f2 d r show ?thesis by simp
qed

text \<open>
  Claim C10: the id of a new note is the ISO text of the clock's reading, as
  \<^verbatim>\<open>createdAt\<close> is of the next reading. Two notes made at the same reading of the clock
  have the same id, whatever the summaries and the audio are: the id is then at least
  twice among the active notes.
\<close>

theorem same_millisecond_same_id:
  "id_p (newProject r b m u t t') = toISOString t
   \<and> createdAt (newProject r b m u t t') = toISOString t'
   \<and> 2 \<le> count (mset (map id_p (projects
            (processAudio gt (Inr r2) b2 m2 u2 t t2
               (processAudio gt (Inr r1) b1 m1 u1 t t1 s)))))
          (toISOString t)"
  by (simp add: newProject_def processAudio_def addProject_def mset_array_sort)

section \<open>Loading\<close>



section \<open>The global context\<close>

lemma map_title_summary:
  "map title ps = map title ps' \<Longrightarrow> map summary ps = map summary ps' \<Longrightarrow>
   map (\<lambda>p. F (title p) (summary p)) ps = map (\<lambda>p. F (title p) (summary p)) ps'"
proof (induction ps arbitrary: ps')
  case Nil
  then show ?case by simp
next
  case (Cons p ps)
  then show ?case by (cases ps') auto
qed

lemma map_title_only:
  "map title ds = map title ds' \<Longrightarrow> map (\<lambda>p. F (title p)) ds = map (\<lambda>p. F (title p)) ds'"
proof (induction ds arbitrary: ds')
  case Nil
  then show ?case by simp
next
  case (Cons p ds)
  then show ?case by (cases ds') auto
qed

lemma activeProjectsContext_cong:
  assumes "map title ps = map title ps'" and "map summary ps = map summary ps'"
  shows "activeProjectsContext ps = activeProjectsContext ps'"
proof -
  from assms(1) have "length ps = length ps'" by (rule map_eq_imp_length_eq)
  moreover have
    "map (\<lambda>p. ''- Title: '' @ [CHR 0x22] @ title p @ [CHR 0x22] @ '' (Summary: '' @ summary p @ '')'') ps
      = map (\<lambda>p. ''- Title: '' @ [CHR 0x22] @ title p @ [CHR 0x22] @ '' (Summary: '' @ summary p @ '')'') ps'"
    using assms by (rule map_title_summary)
  ultimately show ?thesis by (simp add: activeProjectsContext_def)
qed

lemma deletedProjectsContext_cong:
  assumes "map title ds = map title ds'"
  shows "deletedProjectsContext ds = deletedProjectsContext ds'"
proof -
  from assms have "length ds = length ds'" by (rule map_eq_imp_length_eq)
  moreover have
    "map (\<lambda>p. ''- Title: '' @ [CHR 0x22] @ title p @ [CHR 0x22]) ds
      = map (\<lambda>p. ''- Title: '' @ [CHR 0x22] @ title p @ [CHR 0x22]) ds'"
    using assms by (rule map_title_only)
  ultimately show ?thesis by (simp add: deletedProjectsContext_def)
qed

text \<open>
  Claim C7: the text of the global assistant's instructions is a function of the two
  collections alone, and of less: collections that have the same titles and summaries
  of the active notes and the same titles of the trashed notes, in the same order,
  give the same text, character for character. Collections with the same contents are
  such.
\<close>

theorem global_context_deterministic:
  "map title ps = map title ps' \<Longrightarrow> map summary ps = map summary ps' \<Longrightarrow>
   map title ds = map title ds' \<Longrightarrow>
   globalSystemInstruction ps ds = globalSystemInstruction ps' ds'
   \<and> systemInstruction (createGlobalChat k ps ds) = systemInstruction (createGlobalChat k' ps' ds')"
  unfolding createGlobalChat_def globalSystemInstruction_def
  by (simp add: activeProjectsContext_cong [of ps ps'] deletedProjectsContext_cong [of ds ds'])

text \<open>
  The same collections twice; collections that differ in the ids and dates of their
  notes only; and the text of the active notes for one note.
\<close>

theorem global_context_deterministic_witness:
  "map title [note_B, note_A] = map title [note_B, note_A]
   \<and> map summary [note_B, note_A] = map summary [note_B, note_A]
   \<and> map title [note_C] = map title [note_C]
   \<and> systemInstruction (createGlobalChat 0 [note_B, note_A] [note_C])
       = systemInstruction (createGlobalChat 1 [note_B, note_A] [note_C])
   \<and> map title [note_A] = map title [note_B]
   \<and> map summary [note_A] = map summary [note_B]
   \<and> map title [note_C] = map title [note_A]
   \<and> globalSystemInstruction [note_A] [note_C] = globalSystemInstruction [note_B] [note_A]
   \<and> activeProjectsContext [note_A]
        = ''Here are the user's current summaries:'' @ [CHR 0x0A] @ ''- Title: '' @ [CHR 0x22]
          @ ''Standup'' @ [CHR 0x22] @ '' (Summary: Daily sync)''"
proof -
  have a: "activeProjectsContext [note_A]
        = ''Here are the user's current summaries:'' @ [CHR 0x0A] @ ''- Title: '' @ [CHR 0x22]
          @ ''Standup'' @ [CHR 0x22] @ '' (Summary: Daily sync)''"
    by code_simp
  have t: "map title [note_A] = map title [note_B]" "map summary [note_A] = map summary [note_B]"
      "map title [note_C] = map title [note_A]"
    by (simp_all add: note_A_def note_B_def note_C_def example_note_def)
  from global_context_deterministic
    [of "[note_B, note_A]" "[note_B, note_A]" "[note_C]" "[note_C]" 0 1]
  have same: "systemInstruction (createGlobalChat 0 [note_B, note_A] [note_C])
       = systemInstruction (createGlobalChat 1 [note_B, note_A] [note_C])"
    by simp
  from global_context_deterministic [OF t, of 0 0]
  have other: "globalSystemInstruction [note_A] [note_C] = globalSystemInstruction [note_B] [note_A]"
    by simp
  from a t same other show ?thesis by simp
qed

section \<open>A chat exchange\<close>




section \<open>Fragments of a superseded session\<close>

lemma mounted_streams_current_loaded: "mounted_streams_current (app_loaded ps ds)"
  by (simp add: mounted_streams_current_def app_loaded_def rebuild_def)

lemma render_unmounted: "\<not> chat_rendered v \<Longrightarrow> chat_instance (render v) = None"
  by (simp add: render_def)

lemma mounted_streams_current_render_off:
  "mounted_streams_current v \<Longrightarrow> \<not> chat_rendered v' \<Longrightarrow> streams v' = streams v \<Longrightarrow>
   next_object v' = next_object v \<Longrightarrow> mounted_streams_current (render v')"
  by (auto simp: mounted_streams_current_def render_def chat_rendered_def)

lemma mounted_streams_current_rebuild_off:
  "mounted_streams_current v \<Longrightarrow> chat_instance v = None \<Longrightarrow> mounted_streams_current (rebuild v)"
  by (auto simp: mounted_streams_current_def rebuild_def chat_rendered_def less_Suc_eq)

lemma mounted_streams_current_render:
  "mounted_streams_current v \<Longrightarrow> streams v' = streams v \<Longrightarrow> next_object v' = next_object v \<Longrightarrow>
   chat_instance v' = chat_instance v \<Longrightarrow> generalChatRef v' = generalChatRef v \<Longrightarrow>
   mounted_streams_current (render v')"
  by (auto simp: mounted_streams_current_def render_def chat_rendered_def less_Suc_eq split: option.splits)

text \<open>
  An update of the collections happens where the chat is not rendered, or opens a
  note, which takes the chat away: \<open>rebuild\<close> always finds the chat unmounted.
\<close>

lemma mounted_streams_current_mutation:
  assumes g: "mounted_streams_current v" and off: "\<not> chat_rendered (v\<lparr>state := s'\<rparr>)"
  shows "mounted_streams_current (rebuild (render (v\<lparr>state := s'\<rparr>)))"
proof -
  have "mounted_streams_current (render (v\<lparr>state := s'\<rparr>))"
    using g off by (rule mounted_streams_current_render_off) simp_all
  then show ?thesis
    using render_unmounted [OF off] by (rule mounted_streams_current_rebuild_off)
qed

lemma mounted_streams_current_step: "mounted_streams_current v \<Longrightarrow> mounted_streams_current (app_step gt e v)"
proof (cases e)
  case (SelectView m)
  assume "mounted_streams_current v"
  then show ?thesis using SelectView
    by (auto intro!: mounted_streams_current_render [of v])
next
  case (OpenProject p)
  assume "mounted_streams_current v"
  then show ?thesis using OpenProject
    by (auto intro!: mounted_streams_current_render [of v])
next
  case Back
  assume "mounted_streams_current v"
  then show ?thesis using Back
    by (auto intro!: mounted_streams_current_render [of v])
next
  case (ClickDelete i)
  assume g: "mounted_streams_current v"
  show ?thesis
  proof (cases "activeProject (state v) = None \<and> mainView v = SUMMARIES
         \<and> i \<in> set (map id_p (projects (state v)))")
    case True
    then have "\<not> chat_rendered (v\<lparr>state := deleteProject i (state v)\<rparr>)"
      by (simp add: chat_rendered_def)
    with g have "mounted_streams_current (rebuild (render (v\<lparr>state := deleteProject i (state v)\<rparr>)))"
      by (rule mounted_streams_current_mutation)
    then show ?thesis using ClickDelete True by simp
  next
    case False
    then show ?thesis using g ClickDelete by auto
  qed
next
  case (ClickRestore i)
  assume g: "mounted_streams_current v"
  show ?thesis
  proof (cases "activeProject (state v) = None \<and> mainView v = RECYCLE_BIN
         \<and> i \<in> set (map id_p (deletedProjects (state v)))")
    case True
    then have "\<not> chat_rendered (v\<lparr>state := restoreProject gt i (state v)\<rparr>)"
      by (simp add: chat_rendered_def)
    with g have "mounted_streams_current (rebuild (render (v\<lparr>state := restoreProject gt i (state v)\<rparr>)))"
      by (rule mounted_streams_current_mutation)
    then show ?thesis using ClickRestore True by simp
  next
    case False
    then show ?thesis using g ClickRestore by auto
  qed
next
  case (ClickPurge i)
  assume g: "mounted_streams_current v"
  show ?thesis
  proof (cases "activeProject (state v) = None \<and> mainView v = RECYCLE_BIN
         \<and> i \<in> set (map id_p (deletedProjects (state v)))")
    case True
    then have "\<not> chat_rendered (v\<lparr>state := permanentlyDeleteProject i (state v)\<rparr>)"
      by (simp add: chat_rendered_def)
    with g have
      "mounted_streams_current (rebuild (render (v\<lparr>state := permanentlyDeleteProject i (state v)\<rparr>)))"
      by (rule mounted_streams_current_mutation)
    then show ?thesis using ClickPurge True by simp
  next
    case False
    then show ?thesis using g ClickPurge by auto
  qed
next
  case (AudioProcessed res base64 mimeType url t_id t_created)
  assume g: "mounted_streams_current v"
  show ?thesis
  proof (cases res)
    case (Inl err)
    then show ?thesis using g AudioProcessed
      by (auto simp: mounted_streams_current_def chat_rendered_def processAudio_def)
  next
    case (Inr r)
    then have "\<not> chat_rendered
        (v\<lparr>state := processAudio gt res base64 mimeType url t_id t_created (state v)\<rparr>)"
      by (simp add: chat_rendered_def processAudio_def addProject_def)
    with g have "mounted_streams_current (rebuild (render
        (v\<lparr>state := processAudio gt res base64 mimeType url t_id t_created (state v)\<rparr>)))"
      by (rule mounted_streams_current_mutation)
    then show ?thesis using AudioProcessed Inr by simp
  qed
next
  case (TypeInput str)
  assume "mounted_streams_current v"
  then show ?thesis using TypeInput
    by (auto simp: mounted_streams_current_def chat_rendered_def split: option.splits)
next
  case ClickSend
  assume "mounted_streams_current v"
  then show ?thesis using ClickSend
    by (auto simp: mounted_streams_current_def chat_rendered_def split: option.splits)
next
  case (ChunkArrives k c chunk)
  assume "mounted_streams_current v"
  then show ?thesis using ChunkArrives
    by (auto simp: mounted_streams_current_def chat_rendered_def on_instance_def split: option.splits)
next
  case (StreamEnds k c e')
  assume "mounted_streams_current v"
  then show ?thesis using StreamEnds
    by (auto simp: mounted_streams_current_def chat_rendered_def on_instance_def split: option.splits
        dest: notin_set_remove1)
qed

lemma mounted_streams_current_run: "mounted_streams_current v \<Longrightarrow> mounted_streams_current (app_run gt es v)"
  by (induction es arbitrary: v) (auto simp: mounted_streams_current_step)

text \<open>
  The callback itself looks at no session: a fragment of a stream whose instance is
  mounted is appended to the transcript of that instance.
\<close>

lemma fragment_of_mounted_instance:
  "(k, c) \<in> set (streams v) \<Longrightarrow> chat_instance v = Some (k, u) \<Longrightarrow>
   chat_instance (app_step gt (ChunkArrives k c chunk) v) = Some (k, onChunk chunk u)"
  by (simp add: on_instance_def)

text \<open>
  Claim C3: in every state that \<^verbatim>\<open>App\<close> reaches from its start, a fragment of a stream
  that was sent on another chat than the one \<^verbatim>\<open>generalChatRef\<close> holds now changes neither
  the transcript on the screen nor anything else of the mounted \<^verbatim>\<open>ChatInterface\<close>: it
  is dropped. No comparison of sessions does this: the transcript belongs to the
  instance that sent the message, and every change of the collections finds that
  instance unmounted.
\<close>

theorem stale_fragments_discarded:
  "Some c \<noteq> generalChatRef (app_run gt es (app_loaded ps ds)) \<Longrightarrow>
   chat_instance (app_step gt (ChunkArrives k c chunk) (app_run gt es (app_loaded ps ds)))
     = chat_instance (app_run gt es (app_loaded ps ds))
   \<and> transcript (app_step gt (ChunkArrives k c chunk) (app_run gt es (app_loaded ps ds)))
     = transcript (app_run gt es (app_loaded ps ds))"
proof -
  assume stale: "Some c \<noteq> generalChatRef (app_run gt es (app_loaded ps ds))"
  have "mounted_streams_current (app_run gt es (app_loaded ps ds))"
    using mounted_streams_current_loaded by (rule mounted_streams_current_run)
  with stale have "chat_instance
      (app_step gt (ChunkArrives k c chunk) (app_run gt es (app_loaded ps ds)))
     = chat_instance (app_run gt es (app_loaded ps ds))"
    by (auto simp: mounted_streams_current_def on_instance_def split: option.splits)
  then show ?thesis by (simp add: transcript_def)
qed

text \<open>
  A message is sent in the chat view and a first fragment arrives; the user goes to the
  summaries and deletes a note, and comes back to the chat. The stream of the first
  chat is still open, and its next fragment leaves the new, empty transcript empty.
\<close>

theorem stale_fragments_discarded_witness:
  "Some (createGlobalChat 0 [note_B, note_A] [])
     \<noteq> generalChatRef (app_run getTime
          [SelectView CHAT, TypeInput ''hi'', ClickSend,
           ChunkArrives 1 (createGlobalChat 0 [note_B, note_A] []) ''Hel'',
           SelectView SUMMARIES, ClickDelete ''a1'', SelectView CHAT]
          (app_loaded [note_B, note_A] []))
   \<and> (1, createGlobalChat 0 [note_B, note_A] [])
       \<in> set (streams (app_run getTime
          [SelectView CHAT, TypeInput ''hi'', ClickSend,
           ChunkArrives 1 (createGlobalChat 0 [note_B, note_A] []) ''Hel'',
           SelectView SUMMARIES, ClickDelete ''a1'', SelectView CHAT]
          (app_loaded [note_B, note_A] [])))
   \<and> transcript (app_step getTime
        (ChunkArrives 1 (createGlobalChat 0 [note_B, note_A] []) ''lo'')
        (app_run getTime
          [SelectView CHAT, TypeInput ''hi'', ClickSend,
           ChunkArrives 1 (createGlobalChat 0 [note_B, note_A] []) ''Hel'',
           SelectView SUMMARIES, ClickDelete ''a1'', SelectView CHAT]
          (app_loaded [note_B, note_A] []))) = Some []"
proof -
  have stale: "Some (createGlobalChat 0 [note_B, note_A] [])
     \<noteq> generalChatRef (app_run getTime
          [SelectView CHAT, TypeInput ''hi'', ClickSend,
           ChunkArrives 1 (createGlobalChat 0 [note_B, note_A] []) ''Hel'',
           SelectView SUMMARIES, ClickDelete ''a1'', SelectView CHAT]
          (app_loaded [note_B, note_A] []))"
    by code_simp
  have open_stream: "(1, createGlobalChat 0 [note_B, note_A] [])
       \<in> set (streams (app_run getTime
          [SelectView CHAT, TypeInput ''hi'', ClickSend,
           ChunkArrives 1 (createGlobalChat 0 [note_B, note_A] []) ''Hel'',
           SelectView SUMMARIES, ClickDelete ''a1'', SelectView CHAT]
          (app_loaded [note_B, note_A] [])))"
    by code_simp
  have before: "transcript (app_run getTime
          [SelectView CHAT, TypeInput ''hi'', ClickSend,
           ChunkArrives 1 (createGlobalChat 0 [note_B, note_A] []) ''Hel'',
           SelectView SUMMARIES, ClickDelete ''a1'', SelectView CHAT]
          (app_loaded [note_B, note_A] [])) = Some []"
    by code_simp
  from stale_fragments_discarded [OF stale, of 1 "''lo''"] stale open_stream before
  show ?thesis by simp
qed

end
